theory Spec2Isabelle
  imports Main
begin

section \<open>Errors, promises and effects\<close>

text \<open>
  A thrown JavaScript value. \<open>Error\<close> is \<open>throw Error(msg)\<close> or a rejection of the
  backend; \<open>TypeError\<close> is what reading a member of \<open>undefined\<close>/\<open>null\<close>, or calling
  something that is not a function, raises.
\<close>

datatype error = Error string | TypeError string

text \<open>
  The promise built by \<open>new Promise((resolve, reject) => ...)\<close>: it is settled by the
  first call of \<open>resolve\<close> or \<open>reject\<close>; later calls do nothing.
\<close>

datatype promise = Pending | Resolved | Rejected error

definition resolve :: "promise \<Rightarrow> promise" where
  "resolve p = (case p of Pending \<Rightarrow> Resolved | _ \<Rightarrow> p)"

definition reject :: "error \<Rightarrow> promise \<Rightarrow> promise" where
  "reject e p = (case p of Pending \<Rightarrow> Rejected e | _ \<Rightarrow> p)"

type_synonym watch_id = nat

datatype watch_target = CatalogWatch | ServiceWatch string

text \<open>The calls the registry makes on its collaborators, in the order it makes them.\<close>

datatype effect =
    BackendRegister
  | BackendDeregister string
  | SchedulerAdd string
  | SchedulerRemove string
  | WatchCreate watch_id watch_target
  | WatchEnd watch_id
  | SetServices string
  | LogWarn error
  | LogError error

section \<open>Options, registration and the registry object\<close>

record heartbeat_options =
  enabled :: bool

record discovery_options =
  failFast :: "bool option"

record service_options =
  service_name :: "string option"
  service_id :: "string option"

text \<open>\<open>ConsulRegistryOptions\<close>: each of the three members may be absent.\<close>

record registry_options =
  service :: "service_options option"
  discovery :: "discovery_options option"
  heartbeat :: "heartbeat_options option"

text \<open>
  Modelled from the spec: \<open>ConsulRegistration\<close> (its class is not among the sources).
  Only what the registry reads is kept: \<open>getInstanceId()\<close>, \<open>getServiceId()\<close> and
  \<open>getService().check.ttl\<close>, the TTL of the health check, present only when the
  registration carries a TTL check.
\<close>

record registration =
  instanceId :: string
  serviceId :: string
  check_ttl :: "string option"

text \<open>
  The fields of \<open>ConsulServiceRegistry\<close> (\<open>watcher\<close>, \<open>registration\<close>,
  \<open>ttlScheduler\<close>, \<open>watchers\<close>, \<open>serviceStore\<close>) together with what the outside
  world holds: the watch handles the Consul client has handed out and that were not
  ended, the number of handles handed out, the number of register calls received, the
  maintenance calls received (instance id and \<open>enable\<close>, oldest first), and the trace
  of effects.

  \<open>watchers\<close> is a JavaScript \<open>Map\<close> object. It has two stores: the entries of the map
  (\<open>set\<close>/\<open>get\<close>/\<open>forEach\<close>), and the properties of the object
  (\<open>this.watchers[name]\<close>). The source iterates over the first and reads and writes
  the second.
\<close>

record 'i registry =
  watcher :: "watch_id option"
  registration :: "registration option"
  ttlScheduler :: "string list option"
  watchers_entries :: "(string \<times> watch_id) list"
  watchers_props :: "string \<rightharpoonup> watch_id"
  serviceStore :: "string \<rightharpoonup> 'i list"
  open_watches :: "(watch_id \<times> watch_target) list"
  watch_count :: nat
  register_calls :: nat
  maintenance_calls :: "(string \<times> bool) list"
  trace :: "effect list"

text \<open>
  \<open>ConsulClient\<close>: \<open>consul\<close> tells whether \<open>this.client.consul\<close> is set; the other
  members are the answers of the agent. The answer to a register call may depend on
  how many register calls came before it, and the health checks reported for a service
  on the maintenance calls received so far. Of a health check only the members that
  the registry reads are kept.
\<close>

record check =
  ServiceID :: string
  Name :: string

record 'n consul_client =
  consul :: bool
  agent_service_register :: "nat \<Rightarrow> error option"
  agent_service_deregister :: "string \<Rightarrow> error option"
  agent_service_maintenance :: "string \<Rightarrow> bool \<Rightarrow> error option"
  health_service :: "string \<Rightarrow> error + 'n list"
  health_checks :: "(string \<times> bool) list \<Rightarrow> string \<Rightarrow> error + check list"

definition emit :: "effect \<Rightarrow> 'i registry \<Rightarrow> 'i registry" where
  "emit ev s = s\<lparr>trace := trace s @ [ev]\<rparr>"

section \<open>TtlScheduler and ServiceStore\<close>

text \<open>
  Modelled from the spec: \<open>TtlScheduler\<close> of \<open>@ultimate-backend/common\<close> (not among the
  sources). It keeps one timer per enrolled instance id; \<open>remove\<close> of an id that is
  not enrolled does nothing.
\<close>

definition scheduler_add :: "string \<Rightarrow> string list \<Rightarrow> string list" where
  "scheduler_add i ts = (if i \<in> set ts then ts else ts @ [i])"

definition scheduler_remove :: "string \<Rightarrow> string list \<Rightarrow> string list" where
  "scheduler_remove i ts = removeAll i ts"

text \<open>
  Modelled from the spec: \<open>ServiceStore\<close> of \<open>@ultimate-backend/common\<close> (not among the
  sources). \<open>setServices\<close> replaces the whole entry of a name; \<open>getServices\<close> of an
  unknown name is the empty sequence.
\<close>

definition setServices :: "string \<Rightarrow> 'i list \<Rightarrow> 'i registry \<Rightarrow> 'i registry" where
  "setServices n xs s = emit (SetServices n) (s\<lparr>serviceStore := (serviceStore s)(n \<mapsto> xs)\<rparr>)"

definition getServices :: "string \<Rightarrow> 'i registry \<Rightarrow> 'i list" where
  "getServices n s = (case serviceStore s n of None \<Rightarrow> [] | Some xs \<Rightarrow> xs)"

section \<open>Registration with retry\<close>

text \<open>
  \<open>_internalRegister\<close>. The result is the error it throws, if any, and the registry
  after it. The members read before the agent is called raise \<open>TypeError\<close> when they
  are missing.
\<close>

definition internalRegister ::
  "'n consul_client \<Rightarrow> registry_options \<Rightarrow> 'i registry \<Rightarrow> error option \<times> 'i registry" where
  "internalRegister client opts s =
     (case registration s of
        None \<Rightarrow> (Some (TypeError ''this.registration is undefined''), s)
      | Some reg \<Rightarrow>
         (case service opts of
            None \<Rightarrow> (Some (TypeError ''this.options.service is undefined''), s)
          | Some svc \<Rightarrow>
             if \<not> consul client
             then (Some (TypeError ''this.client.consul is undefined''), s)
             else
               let s1 = emit BackendRegister (s\<lparr>register_calls := Suc (register_calls s)\<rparr>)
               in (case agent_service_register client (register_calls s) of
                     Some e \<Rightarrow> (Some e, s1)
                   | None \<Rightarrow>
                      (case heartbeat opts of
                         None \<Rightarrow> (Some (TypeError ''this.options.heartbeat is null''), s1)
                       | Some hb \<Rightarrow>
                          (case ttlScheduler s1 of
                             None \<Rightarrow> (None, s1)
                           | Some ts \<Rightarrow>
                              if enabled hb \<and> check_ttl reg \<noteq> None
                              then (None,
                                    emit (SchedulerAdd (instanceId reg))
                                      (s1\<lparr>ttlScheduler :=
                                             Some (scheduler_add (instanceId reg) ts)\<rparr>))
                              else (None, s1))))))"

text \<open>
  The first statement of the \<open>catch\<close> block of \<open>register\<close>:
  \<open>if (this.options.discovery.failFast) { warn(...); reject(e); }\<close>.
  There is no \<open>return\<close> after \<open>reject(e)\<close>. The result is \<open>None\<close> when the block
  itself throws (no discovery options, or no registration to print in the warning):
  the callback then ends without settling the promise.
\<close>

definition fail_fast_check ::
  "registry_options \<Rightarrow> error \<Rightarrow> promise \<times> 'i registry \<Rightarrow> (promise \<times> 'i registry) option" where
  "fail_fast_check opts e ps =
     (case discovery opts of
        None \<Rightarrow> None
      | Some d \<Rightarrow>
         if failFast d = Some True
         then (if registration (snd ps) = None then None
               else Some (reject e (fst ps), emit (LogWarn e) (snd ps)))
         else Some ps)"

text \<open>
  The callback given to \<open>operation.attempt\<close>, run once now and once more for each
  timeout that \<open>operation.retry(e)\<close> still has: \<open>retry\<close> answers \<open>true\<close> and schedules
  the callback again while timeouts are left, and \<open>false\<close> when none is left. The
  argument \<open>timeouts\<close> is the number of timeouts left.
\<close>

fun attempt ::
  "'n consul_client \<Rightarrow> registry_options \<Rightarrow> nat \<Rightarrow> promise \<times> 'i registry \<Rightarrow> promise \<times> 'i registry" where
  "attempt client opts timeouts (p, s) =
     (case internalRegister client opts s of
        (None, s1) \<Rightarrow> (resolve p, s1)
      | (Some e, s1) \<Rightarrow>
         (case fail_fast_check opts e (p, s1) of
            None \<Rightarrow> (p, s1)
          | Some (p2, s2) \<Rightarrow>
             (case timeouts of
                0 \<Rightarrow> (reject e p2, s2)
              | Suc m \<Rightarrow> attempt client opts m (p2, s2))))"

declare attempt.simps [simp del]

text \<open>
  \<open>retry.operation()\<close> is called without options: the library's default is 10
  retries, that is 11 attempts at most. \<open>register()\<close> returns the promise; the
  registry returned with it has the effects of every attempt, also of those that the
  timers run after the promise was settled.
\<close>

definition default_retries :: nat where
  "default_retries = 10"

definition register_with ::
  "nat \<Rightarrow> 'n consul_client \<Rightarrow> registry_options \<Rightarrow> 'i registry \<Rightarrow> promise \<times> 'i registry" where
  "register_with retries client opts s = attempt client opts retries (Pending, s)"

definition register ::
  "'n consul_client \<Rightarrow> registry_options \<Rightarrow> 'i registry \<Rightarrow> promise \<times> 'i registry" where
  "register client opts s = register_with default_retries client opts s"

section \<open>The watch engine\<close>

text \<open>
  \<open>this.client.consul.watch(...)\<close> hands out a new running watch handle;
  \<open>Watch.end()\<close> stops the handle it is called on.
\<close>

definition consul_watch :: "watch_target \<Rightarrow> 'i registry \<Rightarrow> watch_id \<times> 'i registry" where
  "consul_watch t s =
     (watch_count s,
      emit (WatchCreate (watch_count s) t)
        (s\<lparr>watch_count := Suc (watch_count s),
           open_watches := open_watches s @ [(watch_count s, t)]\<rparr>))"

definition watch_end :: "watch_id \<Rightarrow> 'i registry \<Rightarrow> 'i registry" where
  "watch_end w s =
     emit (WatchEnd w) (s\<lparr>open_watches := filter (\<lambda>x. fst x \<noteq> w) (open_watches s)\<rparr>)"

text \<open>
  What \<open>this.watchers[key]\<close> finds on the prototype chain of a \<open>Map\<close> object when the
  object has no property of its own under that key: nothing, a value that is truthy
  but has no \<open>end\<close> method (the methods of \<open>Map.prototype\<close> and \<open>Object.prototype\<close>,
  and \<open>__proto__\<close>), or the getter \<open>size\<close>, which yields the number of entries and
  cannot be assigned to.
\<close>

datatype inherited = NotInherited | InheritedTruthy | InheritedGetter

definition map_prototype :: "string \<Rightarrow> inherited" where
  "map_prototype k =
     (if k = ''size'' then InheritedGetter
      else if k \<in> set [''constructor'', ''clear'', ''delete'', ''entries'', ''forEach'',
                        ''get'', ''has'', ''keys'', ''set'', ''values'',
                        ''hasOwnProperty'', ''isPrototypeOf'', ''propertyIsEnumerable'',
                        ''toLocaleString'', ''toString'', ''valueOf'', ''__proto__'',
                        ''__defineGetter__'', ''__defineSetter__'',
                        ''__lookupGetter__'', ''__lookupSetter__'']
      then InheritedTruthy
      else NotInherited)"

text \<open>
  \<open>watch(serviceName)\<close>. The handle of the name is looked up, and stored, as a
  property of the \<open>watchers\<close> object. The result is the error thrown, if any.
\<close>

definition watch :: "'n consul_client \<Rightarrow> string \<Rightarrow> 'i registry \<Rightarrow> error option \<times> 'i registry" where
  "watch client serviceName s =
     (if \<not> consul client then (None, s)
      else
        (case watchers_props s serviceName of
           Some w \<Rightarrow>
             (let (w', s2) = consul_watch (ServiceWatch serviceName) (watch_end w s)
              in (None, s2\<lparr>watchers_props := (watchers_props s2)(serviceName \<mapsto> w')\<rparr>))
         | None \<Rightarrow>
             (case map_prototype serviceName of
                InheritedTruthy \<Rightarrow>
                  (Some (TypeError ''this.watchers[serviceName].end is not a function''), s)
              | InheritedGetter \<Rightarrow>
                  (if watchers_entries s \<noteq> []
                   then (Some (TypeError ''this.watchers[serviceName].end is not a function''), s)
                   else (Some (TypeError ''Cannot set property size''),
                         snd (consul_watch (ServiceWatch serviceName) s)))
              | NotInherited \<Rightarrow>
                  (let (w', s2) = consul_watch (ServiceWatch serviceName) s
                   in (None, s2\<lparr>watchers_props := (watchers_props s2)(serviceName \<mapsto> w')\<rparr>)))))"

text \<open>
  The \<open>change\<close> handler that \<open>watch\<close> installs on the handle of a name: the store
  entry of the name is replaced by the converted nodes. The converter
  \<open>consulServiceToServiceInstance\<close> is not among the sources and is a parameter.
\<close>

definition service_change ::
  "('n list \<Rightarrow> 'i list) \<Rightarrow> string \<Rightarrow> 'n list \<Rightarrow> 'i registry \<Rightarrow> 'i registry" where
  "service_change conv serviceName nodes s = setServices serviceName (conv nodes) s"

text \<open>
  The body of the \<open>services.map(async ...)\<close> callback of \<open>buildServiceStore\<close> for one
  name: query the healthy nodes, write the store entry, start the watch. A failed
  query ends the callback before the store and the watch are touched.
\<close>

definition build_one ::
  "'n consul_client \<Rightarrow> ('n list \<Rightarrow> 'i list) \<Rightarrow> string \<Rightarrow> 'i registry \<Rightarrow> error option \<times> 'i registry" where
  "build_one client conv service_nm s =
     (if \<not> consul client then (Some (TypeError ''this.client.consul is undefined''), s)
      else
        (case health_service client service_nm of
           Inl e \<Rightarrow> (Some e, s)
         | Inr nodes \<Rightarrow> watch client service_nm (setServices service_nm (conv nodes) s)))"

text \<open>
  \<open>Promise.all\<close> over the callbacks: every callback runs, also after another one has
  failed; the error reported is the first one. The callbacks are taken in the order of
  the list.
\<close>

fun build_all ::
  "'n consul_client \<Rightarrow> ('n list \<Rightarrow> 'i list) \<Rightarrow> string list \<Rightarrow> 'i registry \<Rightarrow> error option \<times> 'i registry" where
  "build_all client conv [] s = (None, s)"
| "build_all client conv (x # xs) s =
     (let (e1, s1) = build_one client conv x s;
          (e2, s2) = build_all client conv xs s1
      in (case e1 of Some e \<Rightarrow> Some e | None \<Rightarrow> e2, s2))"

text \<open>
  \<open>buildServiceStore(services)\<close>: \<open>this.watchers.forEach((watcher) => watcher.end())\<close>
  visits the entries of the map, then \<open>this.watchers = new Map()\<close> replaces the
  object, entries and properties alike.
\<close>

definition end_entries :: "'i registry \<Rightarrow> 'i registry" where
  "end_entries s = foldl (\<lambda>t w. watch_end w t) s (map snd (watchers_entries s))"

definition buildServiceStore ::
  "'n consul_client \<Rightarrow> ('n list \<Rightarrow> 'i list) \<Rightarrow> string list \<Rightarrow> 'i registry \<Rightarrow> error option \<times> 'i registry" where
  "buildServiceStore client conv services s =
     build_all client conv services
       ((end_entries s)\<lparr>watchers_entries := [], watchers_props := Map.empty\<rparr>)"

text \<open>\<open>watchAll()\<close> starts the catalog watch and keeps its handle in \<open>this.watcher\<close>.\<close>

definition watchAll :: "'n consul_client \<Rightarrow> 'i registry \<Rightarrow> 'i registry" where
  "watchAll client s =
     (if \<not> consul client then s
      else (let (w, s1) = consul_watch CatalogWatch s in s1\<lparr>watcher := Some w\<rparr>))"

text \<open>
  The \<open>change\<close> handler of the catalog watch. \<open>data\<close> is the catalog listing, an
  object from service names to tags; \<open>Object.keys(data)\<close> is the list of its keys.
\<close>

definition catalog_change ::
  "'n consul_client \<Rightarrow> ('n list \<Rightarrow> 'i list) \<Rightarrow> (string \<times> string list) list \<Rightarrow> 'i registry
     \<Rightarrow> error option \<times> 'i registry" where
  "catalog_change client conv data s =
     buildServiceStore client conv (filter (\<lambda>value. value \<noteq> ''consul'') (map fst data)) s"


section \<open>Initialisation and the module hooks\<close>

text \<open>
  \<open>init()\<close>. \<open>ConsulRegistrationBuilder\<close> is not among the sources: the chain of
  builder calls ending in \<open>build()\<close> is the parameter \<open>builder\<close>, which may throw.
\<close>

definition init ::
  "(registry_options \<Rightarrow> error + registration) \<Rightarrow> 'n consul_client \<Rightarrow> registry_options
     \<Rightarrow> 'i registry \<Rightarrow> error option \<times> 'i registry" where
  "init builder client opts s =
     (case heartbeat opts of
        None \<Rightarrow> (Some (Error ''HeartbeatOptions is required''), s)
      | Some hb \<Rightarrow>
         (case discovery opts of
            None \<Rightarrow> (Some (Error ''ConsulDiscoveryOptions is required.''), s)
          | Some d \<Rightarrow>
             (case builder opts of
                Inl e \<Rightarrow> (Some e, s)
              | Inr reg \<Rightarrow>
                 (None,
                  watchAll client
                    (if enabled hb
                     then s\<lparr>registration := Some reg, ttlScheduler := Some []\<rparr>
                     else s\<lparr>registration := Some reg\<rparr>)))))"

text \<open>
  How a hook ends for its caller: it completes, it throws (the returned promise is
  rejected), or it waits for a promise that is never settled.
\<close>

datatype outcome = Completed | Threw error | Hangs

text \<open>
  \<open>onModuleInit()\<close>: \<open>try { await this.init(); await this.register(); }
  catch (e) { this.logger.error(e); }\<close>. The log entry of the \<open>catch\<close> block is
  put after the effects of \<open>register\<close>, of which those of late retries happen after
  it in the program.
\<close>

definition onModuleInit ::
  "(registry_options \<Rightarrow> error + registration) \<Rightarrow> 'n consul_client \<Rightarrow> registry_options
     \<Rightarrow> 'i registry \<Rightarrow> outcome \<times> 'i registry" where
  "onModuleInit builder client opts s =
     (case init builder client opts s of
        (Some e, s1) \<Rightarrow> (Completed, emit (LogError e) s1)
      | (None, s1) \<Rightarrow>
         (case register client opts s1 of
            (Resolved, s2) \<Rightarrow> (Completed, s2)
          | (Rejected e, s2) \<Rightarrow> (Completed, emit (LogError e) s2)
          | (Pending, s2) \<Rightarrow> (Hangs, s2)))"

text \<open>
  \<open>deregister()\<close>: the instance id is read for the log line before the \<open>try\<close>; inside
  it the scheduler, when there is one, drops the id, then the agent is called; an error
  of the agent is logged and not rethrown.
\<close>

definition deregister :: "'n consul_client \<Rightarrow> 'i registry \<Rightarrow> outcome \<times> 'i registry" where
  "deregister client s =
     (case registration s of
        None \<Rightarrow> (Threw (TypeError ''this.registration is undefined''), s)
      | Some reg \<Rightarrow>
         (let s1 = (case ttlScheduler s of
                      None \<Rightarrow> s
                    | Some ts \<Rightarrow>
                        emit (SchedulerRemove (instanceId reg))
                          (s\<lparr>ttlScheduler := Some (scheduler_remove (instanceId reg) ts)\<rparr>))
          in if \<not> consul client
             then (Completed, emit (LogError (TypeError ''this.client.consul is undefined'')) s1)
             else
               (case agent_service_deregister client (instanceId reg) of
                  None \<Rightarrow> (Completed, emit (BackendDeregister (instanceId reg)) s1)
                | Some e \<Rightarrow>
                    (Completed, emit (LogError e) (emit (BackendDeregister (instanceId reg)) s1)))))"

text \<open>\<open>close()\<close> has an empty body.\<close>

definition close :: "'i registry \<Rightarrow> 'i registry" where
  "close s = s"

text \<open>\<open>onModuleDestroy()\<close> awaits \<open>deregister()\<close> and does nothing else.\<close>

definition onModuleDestroy :: "'n consul_client \<Rightarrow> 'i registry \<Rightarrow> outcome \<times> 'i registry" where
  "onModuleDestroy client s = deregister client s"

section \<open>Status\<close>

text \<open>
  \<open>setStatus(status)\<close> switches the maintenance mode of the instance on or off; any
  other status is refused.
\<close>

definition maintenance :: "'n consul_client \<Rightarrow> bool \<Rightarrow> 'i registry \<Rightarrow> error option \<times> 'i registry" where
  "maintenance client enable s =
     (if \<not> consul client then (Some (TypeError ''this.client.consul is undefined''), s)
      else
        (case registration s of
           None \<Rightarrow> (Some (TypeError ''this.registration is undefined''), s)
         | Some reg \<Rightarrow>
            (case agent_service_maintenance client (instanceId reg) enable of
               Some e \<Rightarrow> (Some e, s)
             | None \<Rightarrow>
                (None, s\<lparr>maintenance_calls := maintenance_calls s @ [(instanceId reg, enable)]\<rparr>))))"

definition setStatus :: "'n consul_client \<Rightarrow> string \<Rightarrow> 'i registry \<Rightarrow> error option \<times> 'i registry" where
  "setStatus client status s =
     (if status = ''OUT_OF_SERVICE'' then maintenance client True s
      else if status = ''UP'' then maintenance client False s
      else (Some (Error (''Unknown status '' @ status)), s))"

text \<open>The loop of \<open>getStatus\<close> over the checks: the first maintenance marker decides.\<close>

fun scan_checks :: "string \<Rightarrow> check list \<Rightarrow> string" where
  "scan_checks i [] = ''UP''"
| "scan_checks i (c # cs) =
     (if ServiceID c = i \<and> Name c = ''Service Maintenance Mode'' then ''OUT_OF_SERVICE''
      else scan_checks i cs)"

text \<open>\<open>getStatus()\<close>; the result is the \<open>status\<close> member of the object it returns.\<close>

definition getStatus :: "'n consul_client \<Rightarrow> 'i registry \<Rightarrow> error + string" where
  "getStatus client s =
     (if \<not> consul client then Inl (TypeError ''this.client.consul is undefined'')
      else
        (case registration s of
           None \<Rightarrow> Inl (TypeError ''this.registration is undefined'')
         | Some reg \<Rightarrow>
            (case health_checks client (maintenance_calls s) (serviceId reg) of
               Inl e \<Rightarrow> Inl e
             | Inr checks \<Rightarrow> Inr (scan_checks (instanceId reg) checks))))"

section \<open>Provider wiring\<close>

text \<open>
  A JavaScript object is a finite map from keys to values; a key may be present with
  the value \<open>undefined\<close>. \<open>{failFast: true, ...d}\<close> is the object with \<open>failFast\<close>
  set to \<open>true\<close>, overwritten by every key of \<open>d\<close>; spreading \<open>undefined\<close> adds
  nothing.
\<close>

datatype jsvalue = JUndefined | JBool bool | JNumber int | JString string

type_synonym jsobject = "string \<rightharpoonup> jsvalue"

definition spread :: "jsobject option \<Rightarrow> jsobject" where
  "spread d = (case d of None \<Rightarrow> Map.empty | Some m \<Rightarrow> m)"

text \<open>\<open>RegistryConfiguration\<close>, and the \<open>useValue\<close> of the configuration provider.\<close>

record registry_configuration =
  discoverer :: string
  service_cfg :: "jsobject option"
  discovery_cfg :: "jsobject option"
  heartbeat_cfg :: "jsobject option"

record use_value =
  service_val :: "jsobject option"
  discovery_val :: "jsobject option"
  heartbeat_val :: "jsobject option"

text \<open>
  The providers of the list; the configuration provider carries its \<open>useValue\<close>,
  \<open>None\<close> standing for the initial \<open>{}\<close>.
\<close>

datatype provider =
    ConsulServiceRegistry | ConsulDiscoveryClient
  | EtcdServiceRegistry | EtcdDiscoveryClient
  | ZookeeperServiceRegistry | ZookeeperDiscoveryClient
  | MdnsServiceRegistry
  | ServiceStore
  | ConfigProvider "use_value option"

definition remote_value :: "registry_configuration \<Rightarrow> use_value" where
  "remote_value options =
     \<lparr>service_val = service_cfg options,
      discovery_val = Some ([''failFast'' \<mapsto> JBool True] ++ spread (discovery_cfg options)),
      heartbeat_val = heartbeat_cfg options\<rparr>"

definition local_value :: "registry_configuration \<Rightarrow> use_value" where
  "local_value options =
     \<lparr>service_val = service_cfg options,
      discovery_val = discovery_cfg options,
      heartbeat_val = heartbeat_cfg options\<rparr>"

text \<open>
  \<open>getSharedProviderUtils(options)\<close>. \<open>validateOptions\<close> is not among the sources and
  is a parameter; it may throw. \<open>loadPackage\<close> tells whether the package of a backend
  can be loaded; when it cannot, no provider list is produced.
\<close>

definition getSharedProviderUtils ::
  "(registry_configuration \<Rightarrow> error + registry_configuration) \<Rightarrow> (string \<Rightarrow> bool)
     \<Rightarrow> registry_configuration \<Rightarrow> error + provider list" where
  "getSharedProviderUtils validateOptions loadPackage options =
     (case validateOptions options of
        Inl e \<Rightarrow> Inl e
      | Inr registryOption \<Rightarrow>
         if discoverer registryOption = ''consul'' then
           (if loadPackage ''@ultimate-backend/consul''
            then Inr [ConsulServiceRegistry, ConsulDiscoveryClient,
                      ConfigProvider (Some (remote_value options)), ServiceStore]
            else Inl (Error ''@ultimate-backend/consul is missing''))
         else if discoverer registryOption = ''etcd'' then
           (if loadPackage ''@ultimate-backend/etcd''
            then Inr [EtcdServiceRegistry, EtcdDiscoveryClient,
                      ConfigProvider (Some (remote_value options)), ServiceStore]
            else Inl (Error ''@ultimate-backend/etcd is missing''))
         else if discoverer registryOption = ''zookeeper'' then
           (if loadPackage ''@ultimate-backend/zookeeper''
            then Inr [ZookeeperServiceRegistry, ZookeeperDiscoveryClient,
                      ConfigProvider (Some (remote_value options)), ServiceStore]
            else Inl (Error ''@ultimate-backend/zookeeper is missing''))
         else if discoverer registryOption = ''local'' then
           Inr [MdnsServiceRegistry, ConfigProvider (Some (local_value options)), ServiceStore]
         else Inr [ConfigProvider None, ServiceStore])"

text \<open>The \<open>useValue\<close> of the configuration provider of a provider list.\<close>

fun useValue :: "provider list \<Rightarrow> use_value option" where
  "useValue [] = None"
| "useValue (ConfigProvider v # ps) = v"
| "useValue (p # ps) = useValue ps"

section \<open>Test doubles\<close>

text \<open>
  A registry object as the constructor leaves it, a registration, options, and
  backends with scripted answers, used to run the definitions on concrete inputs.
\<close>

definition new_registry :: "string registry" where
  "new_registry =
     \<lparr>watcher = None, registration = None, ttlScheduler = None,
      watchers_entries = [], watchers_props = Map.empty, serviceStore = Map.empty,
      open_watches = [], watch_count = 0, register_calls = 0, maintenance_calls = [],
      trace = []\<rparr>"

definition web_registration :: registration where
  "web_registration = \<lparr>instanceId = ''web-1'', serviceId = ''web'', check_ttl = Some ''30s''\<rparr>"

definition web_builder :: "registry_options \<Rightarrow> error + registration" where
  "web_builder opts =
     Inr (case heartbeat opts of
            None \<Rightarrow> web_registration\<lparr>check_ttl := None\<rparr>
          | Some hb \<Rightarrow> if enabled hb then web_registration
                       else web_registration\<lparr>check_ttl := None\<rparr>)"

text \<open>A builder whose registration carries a check without TTL, whatever the options.\<close>

definition no_ttl_builder :: "registry_options \<Rightarrow> error + registration" where
  "no_ttl_builder opts = Inr (web_registration\<lparr>check_ttl := None\<rparr>)"

definition web_options :: "bool \<Rightarrow> bool \<Rightarrow> registry_options" where
  "web_options ff hb =
     \<lparr>service = Some \<lparr>service_name = Some ''web'', service_id = Some ''web-1''\<rparr>,
      discovery = Some \<lparr>failFast = Some ff\<rparr>,
      heartbeat = Some \<lparr>enabled = hb\<rparr>\<rparr>"

definition marker_checks :: "(string \<times> bool) list \<Rightarrow> string \<Rightarrow> error + check list" where
  "marker_checks h svc =
     Inr ((if h \<noteq> [] \<and> snd (last h)
           then [\<lparr>ServiceID = fst (last h), Name = ''Service Maintenance Mode''\<rparr>] else [])
          @ [\<lparr>ServiceID = ''web-1'', Name = ''Service web check''\<rparr>])"

text \<open>
  A backend whose register call fails on its first \<open>n\<close> calls and succeeds afterwards,
  and whose health query fails for the names in \<open>bad\<close>.
\<close>

definition scripted_client :: "nat \<Rightarrow> string list \<Rightarrow> string consul_client" where
  "scripted_client n bad =
     \<lparr>consul = True,
      agent_service_register = (\<lambda>k. if k < n then Some (Error ''connection refused'') else None),
      agent_service_deregister = (\<lambda>i. None),
      agent_service_maintenance = (\<lambda>i en. None),
      health_service = (\<lambda>nm. if nm \<in> set bad then Inl (Error ''no healthy node'')
                              else Inr [nm @ ''-node'']),
      health_checks = marker_checks\<rparr>"

text \<open>A backend whose register call always fails.\<close>

definition failing_client :: "string consul_client" where
  "failing_client =
     \<lparr>consul = True,
      agent_service_register = (\<lambda>k. Some (Error ''connection refused'')),
      agent_service_deregister = (\<lambda>i. None),
      agent_service_maintenance = (\<lambda>i en. None),
      health_service = (\<lambda>nm. Inr [nm @ ''-node'']),
      health_checks = marker_checks\<rparr>"

text \<open>The registry after \<open>init()\<close> on a new object.\<close>

definition started :: "string consul_client \<Rightarrow> registry_options \<Rightarrow> string registry" where
  "started client opts = snd (init web_builder client opts new_registry)"

text \<open>
  The registry of a service \<open>web\<close> that has initialised, registered with a healthy
  backend, and handled one catalog event listing \<open>web\<close> and \<open>consul\<close>.
\<close>

definition running :: "string registry" where
  "running =
     snd (catalog_change (scripted_client 0 []) id [(''web'', [''v1'']), (''consul'', [])]
       (snd (register (scripted_client 0 []) (web_options True True)
          (started (scripted_client 0 []) (web_options True True)))))"

text \<open>
  Registry configurations for the provider wiring, with a \<open>validateOptions\<close> that
  accepts every configuration as it is.
\<close>

definition accept_options :: "registry_configuration \<Rightarrow> error + registry_configuration" where
  "accept_options c = Inr c"

definition cloud_options :: "string \<Rightarrow> jsobject option \<Rightarrow> registry_configuration" where
  "cloud_options d disc =
     \<lparr>discoverer = d,
      service_cfg = Some [''name'' \<mapsto> JString ''web'', ''port'' \<mapsto> JNumber 3000],
      discovery_cfg = disc,
      heartbeat_cfg = Some [''enabled'' \<mapsto> JBool True]\<rparr>"

section \<open>Auxiliary facts\<close>

lemma started_web:
  "registration (started (scripted_client n bad) (web_options ff hb)) =
     Some (if hb then web_registration else web_registration\<lparr>check_ttl := None\<rparr>)"
  "ttlScheduler (started (scripted_client n bad) (web_options ff hb)) = (if hb then Some [] else None)"
  "register_calls (started (scripted_client n bad) (web_options ff hb)) = 0"
  "trace (started (scripted_client n bad) (web_options ff hb)) = [WatchCreate 0 CatalogWatch]"
  "open_watches (started (scripted_client n bad) (web_options ff hb)) = [(0, CatalogWatch)]"
  "watcher (started (scripted_client n bad) (web_options ff hb)) = Some 0"
  by (simp_all add: started_def init_def web_options_def web_builder_def scripted_client_def
      watchAll_def consul_watch_def emit_def new_registry_def)

lemma scripted_client_sel:
  "consul (scripted_client n bad)"
  "agent_service_register (scripted_client n bad) k =
     (if k < n then Some (Error ''connection refused'') else None)"
  "agent_service_deregister (scripted_client n bad) i = None"
  "agent_service_maintenance (scripted_client n bad) i en = None"
  "health_service (scripted_client n bad) nm =
     (if nm \<in> set bad then Inl (Error ''no healthy node'') else Inr [nm @ ''-node''])"
  "health_checks (scripted_client n bad) = marker_checks"
  by (simp_all add: scripted_client_def)

lemma web_options_sel:
  "service (web_options ff hb) = Some \<lparr>service_name = Some ''web'', service_id = Some ''web-1''\<rparr>"
  "discovery (web_options ff hb) = Some \<lparr>failFast = Some ff\<rparr>"
  "heartbeat (web_options ff hb) = Some \<lparr>enabled = hb\<rparr>"
  by (simp_all add: web_options_def)

lemma failing_client_sel:
  "consul failing_client"
  "agent_service_register failing_client k = Some (Error ''connection refused'')"
  "agent_service_deregister failing_client i = None"
  by (simp_all add: failing_client_def)

lemma started_failing:
  "registration (started failing_client (web_options ff hb)) =
     Some (if hb then web_registration else web_registration\<lparr>check_ttl := None\<rparr>)"
  "ttlScheduler (started failing_client (web_options ff hb)) = (if hb then Some [] else None)"
  "register_calls (started failing_client (web_options ff hb)) = 0"
  "trace (started failing_client (web_options ff hb)) = [WatchCreate 0 CatalogWatch]"
  by (simp_all add: started_def init_def web_options_def web_builder_def failing_client_def
      watchAll_def consul_watch_def emit_def new_registry_def)

lemma internalRegister_throws:
  "registration s = Some reg \<Longrightarrow> service opts \<noteq> None \<Longrightarrow> consul client \<Longrightarrow>
   agent_service_register client (register_calls s) = Some e \<Longrightarrow>
   internalRegister client opts s =
     (Some e, emit BackendRegister (s\<lparr>register_calls := Suc (register_calls s)\<rparr>))"
  by (auto simp: internalRegister_def Let_def split: option.splits)

lemma running_fields:
  "registration running = Some web_registration"
  "ttlScheduler running = Some [''web-1'']"
  "watcher running = Some 0"
  "open_watches running = [(0, CatalogWatch), (1, ServiceWatch ''web'')]"
  "trace running = [WatchCreate 0 CatalogWatch, BackendRegister, SchedulerAdd ''web-1'',
     SetServices ''web'', WatchCreate 1 (ServiceWatch ''web'')]"
  by code_simp+

lemma fail_fast_check_settled:
  "fail_fast_check opts e (p, s) = Some (p2, s2) \<Longrightarrow> p \<noteq> Pending \<Longrightarrow> p2 = p"
  by (cases p) (auto simp: fail_fast_check_def reject_def split: option.splits if_splits)

lemma attempt_settled:
  "p \<noteq> Pending \<Longrightarrow> fst (attempt client opts n (p, s)) = p"
proof (induction n arbitrary: s)
  case 0
  then show ?case
    by (cases p)
      (auto simp: attempt.simps resolve_def reject_def split: prod.splits option.splits
        dest: fail_fast_check_settled)
next
  case (Suc n)
  obtain r s1 where ir: "internalRegister client opts s = (r, s1)"
    by (cases "internalRegister client opts s")
  show ?case
  proof (cases r)
    case None
    then show ?thesis
      using ir Suc.prems by (cases p) (simp_all add: attempt.simps [of _ _ "Suc n"] resolve_def)
  next
    case (Some e)
    show ?thesis
    proof (cases "fail_fast_check opts e (p, s1)")
      case None
      then show ?thesis using ir Some by (simp add: attempt.simps [of _ _ "Suc n"])
    next
      case (Some ps)
      obtain p2 s2 where ps: "ps = (p2, s2)" by (cases ps)
      have "p2 = p" using Some ps Suc.prems by (auto dest: fail_fast_check_settled)
      then show ?thesis
        using ir \<open>r = Some e\<close> Some ps Suc.IH [OF Suc.prems, of s2]
        by (simp add: attempt.simps [of _ _ "Suc n"])
    qed
  qed
qed

lemma init_registration:
  "init builder client opts s = (None, s1) \<Longrightarrow> registration s1 \<noteq> None"
  by (auto simp: init_def watchAll_def consul_watch_def emit_def
      split: option.splits sum.splits if_splits)

lemma attempt_fail_fast_rejects:
  assumes reg: "registration s \<noteq> None"
    and dis: "discovery opts = Some d" and ff: "failFast d = Some True"
    and svc: "service opts \<noteq> None" and con: "consul client"
    and e: "agent_service_register client (register_calls s) = Some e"
  shows "fst (attempt client opts n (Pending, s)) = Rejected e"
proof -
  let ?s1 = "emit BackendRegister (s\<lparr>register_calls := Suc (register_calls s)\<rparr>)"
  obtain reg' where r: "registration s = Some reg'" using reg by auto
  have ir: "internalRegister client opts s = (Some e, ?s1)"
    using internalRegister_throws [OF r svc con e] .
  have chk: "fail_fast_check opts e (Pending, ?s1) = Some (Rejected e, emit (LogWarn e) ?s1)"
    using dis ff r by (simp add: fail_fast_check_def reject_def emit_def)
  show ?thesis
  proof (cases n)
    case 0
    then show ?thesis using ir chk by (simp add: attempt.simps reject_def)
  next
    case (Suc m)
    then have "attempt client opts n (Pending, s) =
        attempt client opts m (Rejected e, emit (LogWarn e) ?s1)"
      using ir chk by (simp add: attempt.simps)
    then show ?thesis by (simp add: attempt_settled)
  qed
qed











lemma scan_checks_marker:
  "scan_checks i cs =
     (if \<exists>c\<in>set cs. ServiceID c = i \<and> Name c = ''Service Maintenance Mode''
      then ''OUT_OF_SERVICE'' else ''UP'')"
  by (induction cs) auto

lemma maintenance_accepted:
  assumes con: "consul client" and reg: "registration s = Some reg"
    and ok: "agent_service_maintenance client (instanceId reg) enable = None"
  shows "maintenance client enable s =
     (None, s\<lparr>maintenance_calls := maintenance_calls s @ [(instanceId reg, enable)]\<rparr>)"
  using con reg ok by (simp add: maintenance_def)

lemma register_with_retry:
  assumes reg: "registration s = Some reg"
    and svc: "service opts \<noteq> None"
    and con: "consul client"
    and hb: "heartbeat opts = Some hb"
    and dis: "discovery opts = Some d"
    and ff: "failFast d \<noteq> Some True"
    and fails: "\<forall>k<N. agent_service_register client (register_calls s + k) \<noteq> None"
    and succeeds: "agent_service_register client (register_calls s + N) = None"
    and attempts: "N < Suc retries"
  shows "fst (register_with retries client opts s) = Resolved \<and>
     register_calls (snd (register_with retries client opts s)) = register_calls s + Suc N \<and>
     trace (snd (register_with retries client opts s)) =
       trace s @ replicate (Suc N) BackendRegister @
         (if enabled hb \<and> check_ttl reg \<noteq> None \<and> ttlScheduler s \<noteq> None
          then [SchedulerAdd (instanceId reg)] else []) \<and>
     ttlScheduler (snd (register_with retries client opts s)) =
       (if enabled hb \<and> check_ttl reg \<noteq> None
        then map_option (scheduler_add (instanceId reg)) (ttlScheduler s)
        else ttlScheduler s)"
  unfolding register_with_def using reg fails succeeds attempts
proof (induction N arbitrary: s retries)
  case 0
  then have ok: "agent_service_register client (register_calls s) = None" by simp
  show ?case
    using svc con hb 0(1) ok
    by (auto simp: attempt.simps internalRegister_def emit_def resolve_def Let_def
        split: option.splits)
next
  case (Suc N)
  from Suc.prems(2) have "agent_service_register client (register_calls s + 0) \<noteq> None"
    by blast
  then obtain e where e: "agent_service_register client (register_calls s) = Some e"
    by auto
  let ?s1 = "emit BackendRegister (s\<lparr>register_calls := Suc (register_calls s)\<rparr>)"
  have ir: "internalRegister client opts s = (Some e, ?s1)"
    using internalRegister_throws [OF Suc.prems(1) svc con e] .
  have chk: "fail_fast_check opts e (Pending, ?s1) = Some (Pending, ?s1)"
    using dis ff by (simp add: fail_fast_check_def)
  obtain m where m: "retries = Suc m" "N < Suc m"
    using Suc.prems(4) by (cases retries) auto
  have step: "attempt client opts retries (Pending, s) = attempt client opts m (Pending, ?s1)"
    using ir chk m by (simp add: attempt.simps)
  have r1: "registration ?s1 = Some reg" using Suc.prems(1) by (simp add: emit_def)
  have f1: "\<forall>k<N. agent_service_register client (register_calls ?s1 + k) \<noteq> None"
    using Suc.prems(2) by (auto simp: emit_def)
  have o1: "agent_service_register client (register_calls ?s1 + N) = None"
    using Suc.prems(3) by (simp add: emit_def)
  have t1: "trace ?s1 = trace s @ [BackendRegister]" "ttlScheduler ?s1 = ttlScheduler s"
    "register_calls ?s1 = Suc (register_calls s)"
    by (simp_all add: emit_def)
  show ?case
    unfolding step using Suc.IH [OF r1 f1 o1 m(2)] t1
    by (auto simp: replicate_app_Cons_same)
qed

text \<open>
  C5 (amended). On a registry on which \<open>init()\<close> has succeeded, with service options
  present and the Consul client connected, fail-fast not on, a backend that fails the
  first \<open>N\<close> register calls and accepts the next one, and more than \<open>N\<close> attempts
  allowed, \<open>register()\<close> resolves after \<open>N + 1\<close> register calls. With heartbeat
  enabled the instance id is enrolled in the scheduler exactly once when the check of
  the registration has a TTL, and not at all when it has none; with heartbeat disabled
  nothing is enrolled.
\<close>

theorem register_retry_enrolls_once:
  assumes ini: "init builder client opts s0 = (None, s)"
    and bld: "builder opts = Inr reg"
    and hb: "heartbeat opts = Some hb"
    and dis: "discovery opts = Some d"
    and ff: "failFast d \<noteq> Some True"
    and svc: "service opts \<noteq> None"
    and con: "consul client"
    and fails: "\<forall>k<N. agent_service_register client (register_calls s + k) \<noteq> None"
    and succeeds: "agent_service_register client (register_calls s + N) = None"
    and attempts: "N < Suc retries"
  shows "fst (register_with retries client opts s) = Resolved \<and>
     register_calls (snd (register_with retries client opts s)) = register_calls s + Suc N \<and>
     trace (snd (register_with retries client opts s)) =
       trace s @ replicate (Suc N) BackendRegister @
         (if enabled hb \<and> check_ttl reg \<noteq> None then [SchedulerAdd (instanceId reg)] else []) \<and>
     count_list (trace (snd (register_with retries client opts s)))
         (SchedulerAdd (instanceId reg)) =
       count_list (trace s) (SchedulerAdd (instanceId reg)) +
         (if enabled hb \<and> check_ttl reg \<noteq> None then 1 else 0) \<and>
     (enabled hb \<longrightarrow>
        ttlScheduler (snd (register_with retries client opts s)) =
          Some (if check_ttl reg \<noteq> None then [instanceId reg] else []))"
proof -
  have r: "registration s = Some reg"
    using ini bld hb dis
    by (auto simp: init_def watchAll_def consul_watch_def emit_def split: if_splits)
  have sch: "enabled hb \<Longrightarrow> ttlScheduler s = Some []"
    using ini bld hb dis
    by (auto simp: init_def watchAll_def consul_watch_def emit_def split: if_splits)
  note g = register_with_retry [OF r svc con hb dis ff fails succeeds attempts]
  from g have g1: "fst (register_with retries client opts s) = Resolved"
    by (rule conjunct1)
  from g have g2: "register_calls (snd (register_with retries client opts s)) =
      register_calls s + Suc N"
    by (rule conjunct1 [OF conjunct2])
  from g have g3: "trace (snd (register_with retries client opts s)) =
      trace s @ replicate (Suc N) BackendRegister @
        (if enabled hb \<and> check_ttl reg \<noteq> None \<and> ttlScheduler s \<noteq> None
         then [SchedulerAdd (instanceId reg)] else [])"
    by (rule conjunct1 [OF conjunct2 [OF conjunct2]])
  from g have g4: "ttlScheduler (snd (register_with retries client opts s)) =
      (if enabled hb \<and> check_ttl reg \<noteq> None
       then map_option (scheduler_add (instanceId reg)) (ttlScheduler s)
       else ttlScheduler s)"
    by (rule conjunct2 [OF conjunct2 [OF conjunct2]])
  have t: "trace (snd (register_with retries client opts s)) =
      trace s @ replicate (Suc N) BackendRegister @
        (if enabled hb \<and> check_ttl reg \<noteq> None then [SchedulerAdd (instanceId reg)] else [])"
    unfolding g3 using sch by auto
  have cnt: "count_list (replicate (Suc N) BackendRegister) (SchedulerAdd (instanceId reg)) = 0"
    by (simp add: count_list_0_iff)
  have c: "count_list (trace (snd (register_with retries client opts s)))
        (SchedulerAdd (instanceId reg)) =
      count_list (trace s) (SchedulerAdd (instanceId reg)) +
        (if enabled hb \<and> check_ttl reg \<noteq> None then 1 else 0)"
    unfolding t using cnt by (simp del: replicate_Suc)
  have e: "enabled hb \<longrightarrow>
      ttlScheduler (snd (register_with retries client opts s)) =
        Some (if check_ttl reg \<noteq> None then [instanceId reg] else [])"
    unfolding g4 using sch by (auto simp: scheduler_add_def)
  show ?thesis by (intro conjI g1 g2 t c e)
qed

theorem register_retry_enrolls_once_witness:
  "fst (register_with 10 (scripted_client 2 []) (web_options False True)
          (started (scripted_client 2 []) (web_options False True))) = Resolved \<and>
   trace (snd (register_with 10 (scripted_client 2 []) (web_options False True)
          (started (scripted_client 2 []) (web_options False True)))) =
     [WatchCreate 0 CatalogWatch, BackendRegister, BackendRegister, BackendRegister,
      SchedulerAdd ''web-1''] \<and>
   ttlScheduler (snd (register_with 10 (scripted_client 2 []) (web_options False True)
          (started (scripted_client 2 []) (web_options False True)))) = Some [''web-1'']"
proof -
  let ?c = "scripted_client 2 [] :: string consul_client"
  let ?o = "web_options False True"
  let ?s = "started ?c ?o"
  have ini: "init web_builder ?c ?o new_registry = (None, ?s)"
    by (simp add: started_def init_def web_options_sel web_builder_def)
  have bld: "web_builder ?o = Inr web_registration"
    by (simp add: web_builder_def web_options_sel)
  have svc: "service ?o \<noteq> None" by (simp add: web_options_sel)
  have con: "consul ?c" by (simp add: scripted_client_sel)
  have hb: "heartbeat ?o = Some \<lparr>enabled = True\<rparr>" by (simp add: web_options_sel)
  have dis: "discovery ?o = Some \<lparr>failFast = Some False\<rparr>" by (simp add: web_options_sel)
  have ff: "failFast \<lparr>failFast = Some False\<rparr> \<noteq> Some True" by simp
  have fails: "\<forall>k<2. agent_service_register ?c (register_calls ?s + k) \<noteq> None"
    by (simp add: scripted_client_sel started_web)
  have succeeds: "agent_service_register ?c (register_calls ?s + 2) = None"
    by (simp add: scripted_client_sel started_web)
  have attempts: "(2::nat) < Suc 10" by simp
  note t = register_retry_enrolls_once [OF ini bld hb dis ff svc con fails succeeds attempts]
  from t have a: "fst (register_with 10 ?c ?o ?s) = Resolved"
    by (rule conjunct1)
  from t have b: "trace (snd (register_with 10 ?c ?o ?s)) =
      trace ?s @ replicate (Suc 2) BackendRegister @
        (if enabled \<lparr>enabled = True\<rparr> \<and> check_ttl web_registration \<noteq> None
         then [SchedulerAdd (instanceId web_registration)] else [])"
    by (rule conjunct1 [OF conjunct2 [OF conjunct2]])
  from t have c: "enabled \<lparr>enabled = True\<rparr> \<longrightarrow>
      ttlScheduler (snd (register_with 10 ?c ?o ?s)) =
        Some (if check_ttl web_registration \<noteq> None then [instanceId web_registration] else [])"
    by (rule conjunct2 [OF conjunct2 [OF conjunct2 [OF conjunct2]]])
  show ?thesis
    using a b c
    by (simp add: started_web web_registration_def numeral_2_eq_2)
qed

text \<open>
  C5 as stated fails with heartbeat enabled and a scheduler in place, when the check
  of the registration has no TTL: the first register call succeeds, \<open>register()\<close>
  resolves, and the instance id is not enrolled.
\<close>

theorem register_no_ttl_counterexample:
  "heartbeat (web_options False True) = Some \<lparr>enabled = True\<rparr> \<and>
   ttlScheduler (snd (init no_ttl_builder (scripted_client 0 []) (web_options False True)
          new_registry)) = Some [] \<and>
   fst (register (scripted_client 0 []) (web_options False True)
          (snd (init no_ttl_builder (scripted_client 0 []) (web_options False True)
             new_registry))) = Resolved \<and>
   count_list (trace (snd (register (scripted_client 0 []) (web_options False True)
          (snd (init no_ttl_builder (scripted_client 0 []) (web_options False True)
             new_registry))))) (SchedulerAdd ''web-1'') = 0 \<and>
   ttlScheduler (snd (register (scripted_client 0 []) (web_options False True)
          (snd (init no_ttl_builder (scripted_client 0 []) (web_options False True)
             new_registry)))) = Some []"
  by code_simp

text \<open>
  C6. In one run of \<open>_internalRegister\<close>: if the register call of the backend throws,
  the run ends with that error, the scheduler is as before and the only effect is the
  register call; and whenever the run enrolls an id in the scheduler, the register call
  of the backend has returned without error and stands right before the enrollment in
  the trace.
\<close>

theorem internalRegister_enrolls_after_success:
  "internalRegister client opts s = (r, s') \<Longrightarrow>
     (\<forall>e. registration s \<noteq> None \<and> service opts \<noteq> None \<and> consul client \<and>
          agent_service_register client (register_calls s) = Some e \<longrightarrow>
          r = Some e \<and> ttlScheduler s' = ttlScheduler s \<and>
          trace s' = trace s @ [BackendRegister])
     \<and> (\<forall>i. SchedulerAdd i \<in> set (drop (length (trace s)) (trace s')) \<longrightarrow>
          r = None \<and> agent_service_register client (register_calls s) = None \<and>
          drop (length (trace s)) (trace s') = [BackendRegister, SchedulerAdd i])
     \<and> (ttlScheduler s' \<noteq> ttlScheduler s \<longrightarrow>
          r = None \<and> agent_service_register client (register_calls s) = None)"
  by (auto simp: internalRegister_def emit_def Let_def split: option.splits if_splits)

theorem internalRegister_enrolls_after_success_witness:
  "fst (internalRegister failing_client (web_options False True)
          (started failing_client (web_options False True))) = Some (Error ''connection refused'') \<and>
   ttlScheduler (snd (internalRegister failing_client (web_options False True)
          (started failing_client (web_options False True)))) = Some [] \<and>
   trace (snd (internalRegister failing_client (web_options False True)
          (started failing_client (web_options False True)))) =
     [WatchCreate 0 CatalogWatch, BackendRegister] \<and>
   SchedulerAdd ''web-1'' \<in> set (trace (snd (internalRegister (scripted_client 0 [])
          (web_options False True) (started (scripted_client 0 []) (web_options False True))))) \<and>
   agent_service_register (scripted_client 0 [] :: string consul_client) 0 = None"
proof -
  let ?o = "web_options False True"
  let ?s = "started failing_client ?o"
  let ?t = "started (scripted_client 0 []) ?o"
  have run: "internalRegister failing_client ?o ?s =
      (fst (internalRegister failing_client ?o ?s), snd (internalRegister failing_client ?o ?s))"
    by simp
  have pre: "registration ?s \<noteq> None \<and> service ?o \<noteq> None \<and> consul failing_client \<and>
      agent_service_register failing_client (register_calls ?s) = Some (Error ''connection refused'')"
    by (simp add: started_failing web_options_sel failing_client_sel)
  have a: "fst (internalRegister failing_client ?o ?s) = Some (Error ''connection refused'') \<and>
      ttlScheduler (snd (internalRegister failing_client ?o ?s)) = ttlScheduler ?s \<and>
      trace (snd (internalRegister failing_client ?o ?s)) = trace ?s @ [BackendRegister]"
    using internalRegister_enrolls_after_success [OF run] pre by blast
  have run2: "internalRegister (scripted_client 0 []) ?o ?t =
      (fst (internalRegister (scripted_client 0 []) ?o ?t),
       snd (internalRegister (scripted_client 0 []) ?o ?t))"
    by simp
  have added: "SchedulerAdd ''web-1'' \<in> set (drop (length (trace ?t))
      (trace (snd (internalRegister (scripted_client 0 []) ?o ?t))))"
    by (simp add: internalRegister_def started_web web_options_sel scripted_client_sel
        emit_def web_registration_def)
  have b: "agent_service_register (scripted_client 0 [] :: string consul_client)
      (register_calls ?t) = None"
    using internalRegister_enrolls_after_success [OF run2] added by blast
  have c: "SchedulerAdd ''web-1'' \<in> set (trace (snd (internalRegister (scripted_client 0 [])
      ?o ?t)))"
    using added by (rule in_set_dropD)
  show ?thesis using a b c by (simp add: started_failing started_web)
qed

text \<open>
  C1 (the code at the failing input). With fail-fast on and a backend that rejects
  every register call, the promise of \<open>register()\<close> is rejected with the error of the
  first call, and the retry operation, which is not left after \<open>reject(e)\<close>, repeats
  the register call for every timeout it has: 11 register calls reach the backend.
\<close>

theorem register_fail_fast_keeps_retrying:
  "fst (register failing_client (web_options True True)
          (started failing_client (web_options True True))) =
     Rejected (Error ''connection refused'') \<and>
   register_calls (snd (register failing_client (web_options True True)
          (started failing_client (web_options True True)))) = 11 \<and>
   count_list (trace (snd (register failing_client (web_options True True)
          (started failing_client (web_options True True))))) BackendRegister = 11"
  by code_simp

text \<open>
  C7. When the heartbeat options or the discovery options are absent, \<open>init()\<close> throws
  an error that names the missing options and leaves the registry as it was: no
  registration is built (the builder is not consulted) and no watch is started.
\<close>

theorem init_requires_options:
  "heartbeat opts = None \<or> discovery opts = None \<Longrightarrow>
   init builder client opts s =
     (Some (Error (if heartbeat opts = None then ''HeartbeatOptions is required''
                   else ''ConsulDiscoveryOptions is required.'')), s)"
  by (auto simp: init_def split: option.splits)

theorem init_requires_options_witness:
  "init web_builder failing_client
     \<lparr>service = None, discovery = None, heartbeat = Some \<lparr>enabled = True\<rparr>\<rparr> new_registry =
     (Some (Error ''ConsulDiscoveryOptions is required.''), new_registry) \<and>
   registration new_registry = None \<and> open_watches new_registry = []"
proof -
  let ?o = "\<lparr>service = None, discovery = None, heartbeat = Some \<lparr>enabled = True\<rparr>\<rparr>"
  have h: "heartbeat ?o = None \<or> discovery ?o = None" by simp
  show ?thesis
    using init_requires_options [OF h, of web_builder failing_client new_registry]
    by (simp add: new_registry_def)
qed

text \<open>
  C3 (amended). When \<open>init()\<close> succeeds, fail-fast is on and the backend rejects the
  register call, \<open>onModuleInit()\<close> catches the rejection, logs it as an error and
  completes: the error does not escape the hook.
\<close>

theorem onModuleInit_contains_fail_fast_error:
  assumes ini: "init builder client opts s = (None, s1)"
    and dis: "discovery opts = Some d" and ff: "failFast d = Some True"
    and svc: "service opts \<noteq> None" and con: "consul client"
    and e: "agent_service_register client (register_calls s1) = Some e"
  shows "fst (onModuleInit builder client opts s) = Completed \<and>
     LogError e \<in> set (trace (snd (onModuleInit builder client opts s)))"
proof -
  have reg: "registration s1 \<noteq> None" using ini by (rule init_registration)
  have rej: "fst (register client opts s1) = Rejected e"
    unfolding register_def register_with_def
    using attempt_fail_fast_rejects [OF reg dis ff svc con e] .
  then obtain s2 where r: "register client opts s1 = (Rejected e, s2)"
    by (cases "register client opts s1") auto
  show ?thesis using ini r by (simp add: onModuleInit_def emit_def)
qed

theorem onModuleInit_contains_fail_fast_error_witness:
  "fst (onModuleInit web_builder failing_client (web_options True True) new_registry) = Completed \<and>
   LogError (Error ''connection refused'') \<in>
     set (trace (snd (onModuleInit web_builder failing_client (web_options True True) new_registry)))"
proof -
  let ?o = "web_options True True"
  let ?s1 = "started failing_client ?o"
  have ini: "init web_builder failing_client ?o new_registry = (None, ?s1)"
    by (simp add: started_def init_def web_options_sel web_builder_def)
  have dis: "discovery ?o = Some \<lparr>failFast = Some True\<rparr>" by (simp add: web_options_sel)
  have ff: "failFast \<lparr>failFast = Some True\<rparr> = Some True" by simp
  have svc: "service ?o \<noteq> None" by (simp add: web_options_sel)
  have e: "agent_service_register failing_client (register_calls ?s1) =
      Some (Error ''connection refused'')"
    by (simp add: failing_client_sel)
  show ?thesis
    using onModuleInit_contains_fail_fast_error [OF ini dis ff svc failing_client_sel(1) e] .
qed

text \<open>
  C3 as stated fails: with fail-fast on and a backend that rejects every register
  call, the hook completes and no error reaches its caller.
\<close>

theorem onModuleInit_fail_fast_counterexample:
  "fst (onModuleInit web_builder failing_client (web_options True True) new_registry) = Completed"
  by code_simp

text \<open>
  C4 (amended). \<open>onModuleDestroy()\<close> stops no watch: the open handles, the catalog
  handle and the per-service handles of the registry are as before, whatever the
  registry holds; \<open>close()\<close> changes nothing. On a registry that holds a registration,
  \<open>onModuleDestroy()\<close> removes the instance id from the scheduler, when there is one,
  and then, when the Consul client is connected, issues the deregister call; an error
  of the call, or the missing client, is logged and not thrown, and the hook
  completes.
\<close>

theorem onModuleDestroy_order:
  "open_watches (snd (onModuleDestroy client s)) = open_watches s \<and>
   watcher (snd (onModuleDestroy client s)) = watcher s \<and>
   watchers_props (snd (onModuleDestroy client s)) = watchers_props s \<and>
   close s = s \<and>
   (\<forall>reg. registration s = Some reg \<longrightarrow>
      fst (onModuleDestroy client s) = Completed \<and>
      trace (snd (onModuleDestroy client s)) =
        trace s
        @ (case ttlScheduler s of None \<Rightarrow> [] | Some ts \<Rightarrow> [SchedulerRemove (instanceId reg)])
        @ (if consul client
           then BackendDeregister (instanceId reg) #
                (case agent_service_deregister client (instanceId reg) of
                   None \<Rightarrow> [] | Some e \<Rightarrow> [LogError e])
           else [LogError (TypeError ''this.client.consul is undefined'')]) \<and>
      ttlScheduler (snd (onModuleDestroy client s)) =
        map_option (scheduler_remove (instanceId reg)) (ttlScheduler s))"
  by (auto simp: onModuleDestroy_def deregister_def close_def emit_def Let_def
      split: option.splits)

theorem onModuleDestroy_order_witness:
  "fst (onModuleDestroy (scripted_client 0 []) running) = Completed \<and>
   trace (snd (onModuleDestroy (scripted_client 0 []) running)) =
     trace running @ [SchedulerRemove ''web-1'', BackendDeregister ''web-1''] \<and>
   ttlScheduler (snd (onModuleDestroy (scripted_client 0 []) running)) = Some [] \<and>
   open_watches (snd (onModuleDestroy (scripted_client 0 []) running)) =
     [(0, CatalogWatch), (1, ServiceWatch ''web'')]"
proof -
  let ?c = "scripted_client 0 [] :: string consul_client"
  have reg: "registration running = Some web_registration" by (rule running_fields)
  note t = onModuleDestroy_order [of ?c running]
  from t have w: "open_watches (snd (onModuleDestroy ?c running)) = open_watches running"
    by (rule conjunct1)
  from t have "\<forall>reg. registration running = Some reg \<longrightarrow>
      fst (onModuleDestroy ?c running) = Completed \<and>
      trace (snd (onModuleDestroy ?c running)) =
        trace running
        @ (case ttlScheduler running of
             None \<Rightarrow> [] | Some ts \<Rightarrow> [SchedulerRemove (instanceId reg)])
        @ (if consul ?c
           then BackendDeregister (instanceId reg) #
                (case agent_service_deregister ?c (instanceId reg) of
                   None \<Rightarrow> [] | Some e \<Rightarrow> [LogError e])
           else [LogError (TypeError ''this.client.consul is undefined'')]) \<and>
      ttlScheduler (snd (onModuleDestroy ?c running)) =
        map_option (scheduler_remove (instanceId reg)) (ttlScheduler running)"
    by (rule conjunct2 [OF conjunct2 [OF conjunct2 [OF conjunct2]]])
  then have "fst (onModuleDestroy ?c running) = Completed \<and>
      trace (snd (onModuleDestroy ?c running)) =
        trace running
        @ (case ttlScheduler running of
             None \<Rightarrow> [] | Some ts \<Rightarrow> [SchedulerRemove (instanceId web_registration)])
        @ (if consul ?c
           then BackendDeregister (instanceId web_registration) #
                (case agent_service_deregister ?c (instanceId web_registration) of
                   None \<Rightarrow> [] | Some e \<Rightarrow> [LogError e])
           else [LogError (TypeError ''this.client.consul is undefined'')]) \<and>
      ttlScheduler (snd (onModuleDestroy ?c running)) =
        map_option (scheduler_remove (instanceId web_registration)) (ttlScheduler running)"
    using reg by blast
  then show ?thesis
    using w
    by (simp add: running_fields scripted_client_sel web_registration_def
        scheduler_remove_def)
qed

text \<open>
  C4 as stated fails: after shutdown of a running registry the catalog watch and the
  per-service watch of \<open>web\<close> are still open, and no watch was ended on the way.
\<close>

theorem onModuleDestroy_watches_counterexample:
  "open_watches (snd (onModuleDestroy (scripted_client 0 []) running)) =
     [(0, CatalogWatch), (1, ServiceWatch ''web'')] \<and>
   drop (length (trace running)) (trace (snd (onModuleDestroy (scripted_client 0 []) running))) =
     [SchedulerRemove ''web-1'', BackendDeregister ''web-1'']"
  by code_simp




text \<open>
  C2 (the code at the failing input). A second catalog event for a registry that
  watches \<open>web\<close> ends no watch: the handles were stored as properties of the
  \<open>watchers\<close> object, \<open>forEach\<close> visits its entries, of which there are none, and the
  object is then replaced. The old watch of \<open>web\<close> stays open beside the new one.
\<close>

theorem rebuild_leaves_previous_watch_open:
  "open_watches running = [(0, CatalogWatch), (1, ServiceWatch ''web'')] \<and>
   open_watches (snd (catalog_change (scripted_client 0 []) id [(''web'', [''v1''])] running)) =
     [(0, CatalogWatch), (1, ServiceWatch ''web''), (2, ServiceWatch ''web'')] \<and>
   drop (length (trace running))
     (trace (snd (catalog_change (scripted_client 0 []) id [(''web'', [''v1''])] running))) =
     [SetServices ''web'', WatchCreate 2 (ServiceWatch ''web'')]"
  by code_simp

text \<open>
  C9. With a backend that accepts the maintenance calls and reports the maintenance
  marker among the checks of the instance after an enabling call, and no marker after a
  disabling call: after \<open>setStatus('OUT_OF_SERVICE')\<close>, \<open>getStatus()\<close> returns the
  status \<open>OUT_OF_SERVICE\<close>, and after a following \<open>setStatus('UP')\<close> it returns
  \<open>UP\<close>.
\<close>

theorem status_round_trip:
  assumes con: "consul client" and reg: "registration s = Some reg"
    and on_ok: "agent_service_maintenance client (instanceId reg) True = None"
    and off_ok: "agent_service_maintenance client (instanceId reg) False = None"
    and marks: "\<forall>h. \<exists>cs. health_checks client (h @ [(instanceId reg, True)]) (serviceId reg) = Inr cs \<and>
        (\<exists>c\<in>set cs. ServiceID c = instanceId reg \<and> Name c = ''Service Maintenance Mode'')"
    and clears: "\<forall>h. \<exists>cs. health_checks client (h @ [(instanceId reg, False)]) (serviceId reg) = Inr cs \<and>
        (\<forall>c\<in>set cs. \<not> (ServiceID c = instanceId reg \<and> Name c = ''Service Maintenance Mode''))"
  shows "fst (setStatus client ''OUT_OF_SERVICE'' s) = None \<and>
     getStatus client (snd (setStatus client ''OUT_OF_SERVICE'' s)) = Inr ''OUT_OF_SERVICE'' \<and>
     fst (setStatus client ''UP'' (snd (setStatus client ''OUT_OF_SERVICE'' s))) = None \<and>
     getStatus client (snd (setStatus client ''UP'' (snd (setStatus client ''OUT_OF_SERVICE'' s))))
       = Inr ''UP''"
proof -
  let ?s1 = "s\<lparr>maintenance_calls := maintenance_calls s @ [(instanceId reg, True)]\<rparr>"
  let ?s2 = "?s1\<lparr>maintenance_calls := maintenance_calls ?s1 @ [(instanceId reg, False)]\<rparr>"
  have r1: "registration ?s1 = Some reg" using reg by simp
  have out: "setStatus client ''OUT_OF_SERVICE'' s = (None, ?s1)"
    using maintenance_accepted [OF con reg on_ok] by (simp add: setStatus_def)
  have up: "setStatus client ''UP'' ?s1 = (None, ?s2)"
    using maintenance_accepted [OF con r1 off_ok] by (simp add: setStatus_def)
  obtain cs where cs: "health_checks client (maintenance_calls ?s1) (serviceId reg) = Inr cs"
      "\<exists>c\<in>set cs. ServiceID c = instanceId reg \<and> Name c = ''Service Maintenance Mode''"
    using marks [rule_format, of "maintenance_calls s"] by auto
  obtain ds where ds: "health_checks client (maintenance_calls ?s2) (serviceId reg) = Inr ds"
      "\<forall>c\<in>set ds. \<not> (ServiceID c = instanceId reg \<and> Name c = ''Service Maintenance Mode'')"
    using clears [rule_format, of "maintenance_calls ?s1"] by auto
  have g1: "getStatus client ?s1 = Inr ''OUT_OF_SERVICE''"
    using con reg cs by (simp add: getStatus_def scan_checks_marker)
  have g2: "getStatus client ?s2 = Inr ''UP''"
    using con reg ds by (simp add: getStatus_def scan_checks_marker)
  show ?thesis using out up g1 g2 by simp
qed

theorem status_round_trip_witness:
  "getStatus (scripted_client 0 []) (snd (setStatus (scripted_client 0 []) ''OUT_OF_SERVICE'' running))
     = Inr ''OUT_OF_SERVICE'' \<and>
   getStatus (scripted_client 0 []) (snd (setStatus (scripted_client 0 []) ''UP''
     (snd (setStatus (scripted_client 0 []) ''OUT_OF_SERVICE'' running)))) = Inr ''UP''"
proof -
  let ?c = "scripted_client 0 [] :: string consul_client"
  have con: "consul ?c" by (rule scripted_client_sel)
  have reg: "registration running = Some web_registration" by (rule running_fields)
  have on_ok: "agent_service_maintenance ?c (instanceId web_registration) True = None"
    by (rule scripted_client_sel)
  have off_ok: "agent_service_maintenance ?c (instanceId web_registration) False = None"
    by (rule scripted_client_sel)
  have marks: "\<forall>h. \<exists>cs. health_checks ?c (h @ [(instanceId web_registration, True)])
        (serviceId web_registration) = Inr cs \<and>
      (\<exists>c\<in>set cs. ServiceID c = instanceId web_registration \<and> Name c = ''Service Maintenance Mode'')"
    by (simp add: scripted_client_sel marker_checks_def)
  have clears: "\<forall>h. \<exists>cs. health_checks ?c (h @ [(instanceId web_registration, False)])
        (serviceId web_registration) = Inr cs \<and>
      (\<forall>c\<in>set cs. \<not> (ServiceID c = instanceId web_registration \<and> Name c = ''Service Maintenance Mode''))"
    by (simp add: scripted_client_sel marker_checks_def)
  show ?thesis
    using status_round_trip [OF con reg on_ok off_ok marks clears] by blast
qed

text \<open>
  C10. When the validated options name \<open>consul\<close>, \<open>etcd\<close> or \<open>zookeeper\<close> as
  discoverer and the package of the backend loads, the configuration provided has
  discovery options whose \<open>failFast\<close> is the caller's when the caller's discovery
  options have that key, and \<open>true\<close> when they do not (or when there are no discovery
  options); every other key is the caller's. For the discoverer \<open>local\<close> the discovery
  options provided are the caller's, unchanged.
\<close>

theorem getSharedProviderUtils_failFast_default:
  assumes v: "validateOptions options = Inr registryOption"
  shows "(discoverer registryOption \<in> {''consul'', ''etcd'', ''zookeeper''} \<and>
       loadPackage (''@ultimate-backend/'' @ discoverer registryOption) \<longrightarrow>
       (\<exists>ps u d. getSharedProviderUtils validateOptions loadPackage options = Inr ps \<and>
          useValue ps = Some u \<and> discovery_val u = Some d \<and>
          d ''failFast'' =
            (case spread (discovery_cfg options) ''failFast'' of
               None \<Rightarrow> Some (JBool True) | Some x \<Rightarrow> Some x) \<and>
          (\<forall>k. k \<noteq> ''failFast'' \<longrightarrow> d k = spread (discovery_cfg options) k))) \<and>
     (discoverer registryOption = ''local'' \<longrightarrow>
       (\<exists>ps u. getSharedProviderUtils validateOptions loadPackage options = Inr ps \<and>
          useValue ps = Some u \<and> discovery_val u = discovery_cfg options))"
  using v
  by (auto simp: getSharedProviderUtils_def remote_value_def local_value_def map_add_def
      split: option.splits)

theorem getSharedProviderUtils_failFast_default_witness:
  "(\<exists>ps u d. getSharedProviderUtils accept_options (\<lambda>p. True)
        (cloud_options ''consul'' (Some [''scheme'' \<mapsto> JString ''http''])) = Inr ps \<and>
      useValue ps = Some u \<and> discovery_val u = Some d \<and>
      d ''failFast'' = Some (JBool True) \<and> d ''scheme'' = Some (JString ''http'')) \<and>
   (\<exists>ps u d. getSharedProviderUtils accept_options (\<lambda>p. True)
        (cloud_options ''etcd'' (Some [''failFast'' \<mapsto> JBool False])) = Inr ps \<and>
      useValue ps = Some u \<and> discovery_val u = Some d \<and>
      d ''failFast'' = Some (JBool False)) \<and>
   (\<exists>ps u. getSharedProviderUtils accept_options (\<lambda>p. True)
        (cloud_options ''local'' None) = Inr ps \<and>
      useValue ps = Some u \<and> discovery_val u = None)"
proof -
  let ?o1 = "cloud_options ''consul'' (Some [''scheme'' \<mapsto> JString ''http''])"
  let ?o2 = "cloud_options ''etcd'' (Some [''failFast'' \<mapsto> JBool False])"
  let ?o3 = "cloud_options ''local'' None"
  have v1: "accept_options ?o1 = Inr ?o1" and v2: "accept_options ?o2 = Inr ?o2"
    and v3: "accept_options ?o3 = Inr ?o3"
    by (simp_all add: accept_options_def)
  have h1: "discoverer ?o1 \<in> {''consul'', ''etcd'', ''zookeeper''} \<and>
      (\<lambda>p. True) (''@ultimate-backend/'' @ discoverer ?o1)"
    by (simp add: cloud_options_def)
  have h2: "discoverer ?o2 \<in> {''consul'', ''etcd'', ''zookeeper''} \<and>
      (\<lambda>p. True) (''@ultimate-backend/'' @ discoverer ?o2)"
    by (simp add: cloud_options_def)
  have h3: "discoverer ?o3 = ''local''" by (simp add: cloud_options_def)
  have e1: "spread (discovery_cfg ?o1) ''failFast'' = None"
      "spread (discovery_cfg ?o1) ''scheme'' = Some (JString ''http'')"
    by (simp_all add: cloud_options_def spread_def)
  have e2: "spread (discovery_cfg ?o2) ''failFast'' = Some (JBool False)"
    by (simp add: cloud_options_def spread_def)
  have e3: "discovery_cfg ?o3 = None" by (simp add: cloud_options_def)
  note t1 = getSharedProviderUtils_failFast_default
      [where validateOptions = accept_options and options = "?o1" and registryOption = "?o1"
         and loadPackage = "\<lambda>p. True", OF v1]
  note t2 = getSharedProviderUtils_failFast_default
      [where validateOptions = accept_options and options = "?o2" and registryOption = "?o2"
         and loadPackage = "\<lambda>p. True", OF v2]
  note t3 = getSharedProviderUtils_failFast_default
      [where validateOptions = accept_options and options = "?o3" and registryOption = "?o3"
         and loadPackage = "\<lambda>p. True", OF v3]
  have c1: "\<exists>ps u d. getSharedProviderUtils accept_options (\<lambda>p. True) ?o1 = Inr ps \<and>
      useValue ps = Some u \<and> discovery_val u = Some d \<and>
      d ''failFast'' = Some (JBool True) \<and> d ''scheme'' = Some (JString ''http'')"
    using conjunct1 [OF t1] h1 e1 by fastforce
  have c2: "\<exists>ps u d. getSharedProviderUtils accept_options (\<lambda>p. True) ?o2 = Inr ps \<and>
      useValue ps = Some u \<and> discovery_val u = Some d \<and> d ''failFast'' = Some (JBool False)"
    using conjunct1 [OF t2] h2 e2 by fastforce
  have c3: "\<exists>ps u. getSharedProviderUtils accept_options (\<lambda>p. True) ?o3 = Inr ps \<and>
      useValue ps = Some u \<and> discovery_val u = None"
    using conjunct2 [OF t3] h3 e3 by fastforce
  show ?thesis using c1 c2 c3 by blast
qed

end
